theory Spec2Isabelle
  imports Complex_Main
begin

section \<open>The API Gateway v2 Lambda authorizer (lambda_src/authorizer.py)\<close>

subsection \<open>Values of the event\<close>

text \<open>
  The handler is declared \<^verbatim>\<open>lambda_handler(event: dict[str, Any], context: Any)\<close>.
  The Lambda runtime builds the event with \<^verbatim>\<open>json.loads\<close>, so the values stored in
  it are the Python images of JSON values: \<^verbatim>\<open>None\<close>, \<^verbatim>\<open>bool\<close>, \<^verbatim>\<open>int\<close>,
  \<^verbatim>\<open>float\<close>, \<^verbatim>\<open>str\<close>, \<^verbatim>\<open>list\<close> and \<^verbatim>\<open>dict\<close> with string keys.
  A dict is kept as the list of its items; a lookup takes the first binding of a key.
\<close>

datatype pyfloat = Finite real | PosInf | NegInf | NaN

datatype json =
    JNull
  | JBool bool
  | JInt int
  | JFloat pyfloat
  | JStr string
  | JList "json list"
  | JDict "(string \<times> json) list"

type_synonym event = "(string \<times> json) list"

text \<open>
  The exceptions the handler's operations can raise on such values: \<^verbatim>\<open>AttributeError\<close>
  from calling \<^verbatim>\<open>.get\<close> on a value that is not a dict, and \<^verbatim>\<open>RecursionError\<close> or
  \<^verbatim>\<open>ValueError\<close> from formatting the request identifier in the f-string of line 53.
\<close>

datatype error = AttributeError | RecursionError | ValueError

text \<open>Python truth value testing, as used by \<^verbatim>\<open>not provided_api_key\<close>.\<close>

fun truthy :: "json \<Rightarrow> bool" where
  "truthy JNull = False"
| "truthy (JBool b) = b"
| "truthy (JInt i) = (i \<noteq> 0)"
| "truthy (JFloat f) = (f \<noteq> Finite 0)"
| "truthy (JStr s) = (s \<noteq> [])"
| "truthy (JList xs) = (xs \<noteq> [])"
| "truthy (JDict kvs) = (kvs \<noteq> [])"

text \<open>\<^verbatim>\<open>d.get(k, default)\<close> on a value known to be a dict.\<close>

definition dict_get :: "(string \<times> json) list \<Rightarrow> string \<Rightarrow> json \<Rightarrow> json" where
  "dict_get d k dflt = (case map_of d k of None \<Rightarrow> dflt | Some v \<Rightarrow> v)"

text \<open>
  \<^verbatim>\<open>x.get(k)\<close> on a value of unknown type: only a dict has the method \<^verbatim>\<open>get\<close>;
  on \<^verbatim>\<open>None\<close>, a bool, a number, a str or a list the attribute lookup raises
  \<^verbatim>\<open>AttributeError\<close>. A missing key gives \<^verbatim>\<open>None\<close>.
\<close>

fun py_get :: "json \<Rightarrow> string \<Rightarrow> error + json" where
  "py_get (JDict kvs) k = Inr (dict_get kvs k JNull)"
| "py_get JNull k = Inl AttributeError"
| "py_get (JBool b) k = Inl AttributeError"
| "py_get (JInt i) k = Inl AttributeError"
| "py_get (JFloat f) k = Inl AttributeError"
| "py_get (JStr s) k = Inl AttributeError"
| "py_get (JList xs) k = Inl AttributeError"

text \<open>
  \<^verbatim>\<open>provided_api_key == expected_api_key\<close> where the right-hand side is a \<^verbatim>\<open>str\<close>:
  a value that is not a str is never equal to one.
\<close>

fun py_eq_str :: "json \<Rightarrow> string \<Rightarrow> bool" where
  "py_eq_str (JStr s) t = (s = t)"
| "py_eq_str JNull t = False"
| "py_eq_str (JBool b) t = False"
| "py_eq_str (JInt i) t = False"
| "py_eq_str (JFloat f) t = False"
| "py_eq_str (JList xs) t = False"
| "py_eq_str (JDict kvs) t = False"

subsection \<open>Formatting a value in an f-string\<close>

text \<open>
  \<^verbatim>\<open>f"...{v}"\<close> formats \<^verbatim>\<open>v\<close> with \<^verbatim>\<open>str\<close>, which for a list or a dict is
  \<^verbatim>\<open>repr\<close> and descends into the elements. Two settings of the interpreter decide
  whether that raises: how many nested \<^verbatim>\<open>repr\<close> calls still fit under the recursion
  limit where line 53 runs, and \<^verbatim>\<open>sys.get_int_max_str_digits()\<close> (4300 unless
  configured, 0 for no limit).
\<close>

record interpreter =
  repr_room :: nat
  int_max_str_digits :: nat

text \<open>
  An int is converted to decimal unless it has more digits than the limit, that is unless
  its absolute value reaches \<open>10 ^ limit\<close>; then \<^verbatim>\<open>ValueError\<close> is raised.
\<close>

definition int_too_long :: "interpreter \<Rightarrow> int \<Rightarrow> bool" where
  "int_too_long py i = (int_max_str_digits py \<noteq> 0 \<and> 10 ^ int_max_str_digits py \<le> \<bar>i\<bar>)"

fun first_error :: "error option list \<Rightarrow> error option" where
  "first_error [] = None"
| "first_error (None # es) = first_error es"
| "first_error (Some e # es) = Some e"

text \<open>
  The exception, if any, raised while formatting a value when \<open>n\<close> nested \<^verbatim>\<open>repr\<close> calls
  still fit. An empty list or dict is printed without a nested call; a non-empty one calls
  \<^verbatim>\<open>repr\<close> on its elements in order (for a dict on each key, a str, and then its value),
  and each such call raises \<^verbatim>\<open>RecursionError\<close> when no room is left. The first
  exception ends the formatting.
\<close>

fun repr_error :: "interpreter \<Rightarrow> nat \<Rightarrow> json \<Rightarrow> error option" where
  "repr_error py n JNull = None"
| "repr_error py n (JBool b) = None"
| "repr_error py n (JInt i) = (if int_too_long py i then Some ValueError else None)"
| "repr_error py n (JFloat f) = None"
| "repr_error py n (JStr s) = None"
| "repr_error py 0 (JList xs) = (if xs = [] then None else Some RecursionError)"
| "repr_error py (Suc n) (JList xs) = first_error (map (repr_error py n) xs)"
| "repr_error py 0 (JDict kvs) = (if kvs = [] then None else Some RecursionError)"
| "repr_error py (Suc n) (JDict kvs) = first_error (map (\<lambda>kv. repr_error py n (snd kv)) kvs)"

definition format_error :: "interpreter \<Rightarrow> json \<Rightarrow> error option" where
  "format_error py v = repr_error py (repr_room py) v"

subsection \<open>The process state: environment and log\<close>

datatype level = INFO | WARNING | ERROR

text \<open>
  A log message is a literal text, or the f-string of line 53: a literal prefix followed
  by the text of the formatted value, kept here as the value itself.
\<close>

datatype message = Text string | FString string json

type_synonym log_line = "level \<times> message"

record world =
  environ :: "(string \<times> string) list"
  log :: "log_line list"

text \<open>\<^verbatim>\<open>os.environ.get(name)\<close>\<close>

definition os_environ_get :: "world \<Rightarrow> string \<Rightarrow> string option" where
  "os_environ_get w name = map_of (environ w) name"

text \<open>
  The root logger is set to level INFO, so info, warning and error records are all
  emitted.
\<close>

definition logger :: "level \<Rightarrow> message \<Rightarrow> world \<Rightarrow> world" where
  "logger lvl msg w = w\<lparr>log := log w @ [(lvl, msg)]\<rparr>"

subsection \<open>The handler\<close>

definition verdict :: "bool \<Rightarrow> json" where
  "verdict b = JDict [(''isAuthorized'', JBool b)]"

text \<open>
  \<^verbatim>\<open>lambda_handler\<close>, lines 53 to 79, run by an interpreter with the settings \<open>py\<close>.
  The argument of \<^verbatim>\<open>logger.info\<close> on line 53 is evaluated before the call: the lookup
  of the request identifier and then its formatting. An exception in either leaves the log
  as it was.
\<close>

definition lambda_handler :: "interpreter \<Rightarrow> event \<Rightarrow> 'c \<Rightarrow> world \<Rightarrow> (error + json) \<times> world" where
  "lambda_handler py event context w =
    (case py_get (dict_get event ''requestContext'' (JDict [])) ''requestId'' of
       Inl e \<Rightarrow> (Inl e, w)
     | Inr request_id \<Rightarrow>
        (case format_error py request_id of
           Some e \<Rightarrow> (Inl e, w)
         | None \<Rightarrow>
            (let w1 = logger INFO (FString ''Authorizer invoked for request: '' request_id) w;
                 not_set = (Inr (verdict False),
                            logger ERROR (Text ''ADMIN_API_KEY environment variable not set'') w1)
             in (case os_environ_get w1 ''ADMIN_API_KEY'' of
                  None \<Rightarrow> not_set
                | Some expected_api_key \<Rightarrow>
                    if expected_api_key = [] then not_set
                    else
                      (case py_get (dict_get event ''headers'' (JDict [])) ''x-api-key'' of
                         Inl e \<Rightarrow> (Inl e, w1)
                       | Inr provided_api_key \<Rightarrow>
                           if \<not> truthy provided_api_key then
                             (Inr (verdict False),
                              logger WARNING (Text ''No x-api-key header provided'') w1)
                           else if py_eq_str provided_api_key expected_api_key then
                             (Inr (verdict True),
                              logger INFO (Text ''API key validated successfully'') w1)
                           else
                             (Inr (verdict False),
                              logger WARNING (Text ''Invalid API key provided'') w1))))))"

subsection \<open>The event format and the vocabulary of the properties\<close>

text \<open>
  The docstring of the handler takes an API Gateway v2 authorizer event of format version
  2.0: \<^verbatim>\<open>headers\<close> is a mapping of header names to values and \<^verbatim>\<open>requestContext\<close> is a
  mapping whose \<^verbatim>\<open>requestId\<close>, when there is one, is a string. The handler reads both
  top-level keys with a default, so either may also be absent. The two predicates below are
  the two halves of that format; both ask less than the format does, since they leave the
  header values, the other entries of \<^verbatim>\<open>requestContext\<close> and every other field of the
  event free.
\<close>

definition request_id_ok :: "(string \<times> json) list \<Rightarrow> bool" where
  "request_id_ok rc = (case map_of rc ''requestId'' of None \<Rightarrow> True | Some (JStr s) \<Rightarrow> True | Some other \<Rightarrow> False)"

definition request_context_ok :: "event \<Rightarrow> bool" where
  "request_context_ok ev =
     (case map_of ev ''requestContext'' of None \<Rightarrow> True | Some (JDict rc) \<Rightarrow> request_id_ok rc | Some other \<Rightarrow> False)"

definition headers_ok :: "event \<Rightarrow> bool" where
  "headers_ok ev = (case map_of ev ''headers'' of None \<Rightarrow> True | Some (JDict hs) \<Rightarrow> True | Some other \<Rightarrow> False)"

text \<open>The configured secret is unset or the empty string.\<close>

definition secret_missing :: "world \<Rightarrow> bool" where
  "secret_missing w = (case os_environ_get w ''ADMIN_API_KEY'' of None \<Rightarrow> True | Some s \<Rightarrow> s = [])"

text \<open>The \<^verbatim>\<open>x-api-key\<close> entry of the event's header mapping, when there is one.\<close>

definition api_key_header :: "event \<Rightarrow> json option" where
  "api_key_header ev =
     (case map_of ev ''headers'' of Some (JDict hs) \<Rightarrow> map_of hs ''x-api-key'' | Some other \<Rightarrow> None | None \<Rightarrow> None)"

text \<open>
  The invariant as the specification words it: the secret is present and non-empty, the
  header is present and non-empty, and the two strings are equal.
\<close>

definition authorized_spec :: "event \<Rightarrow> world \<Rightarrow> bool" where
  "authorized_spec ev w =
     (case os_environ_get w ''ADMIN_API_KEY'' of
        None \<Rightarrow> False
      | Some s \<Rightarrow> s \<noteq> [] \<and>
          (case api_key_header ev of Some (JStr h) \<Rightarrow> h \<noteq> [] \<and> h = s | Some other \<Rightarrow> False | None \<Rightarrow> False))"

text \<open>The request identifier that line 53 looks up, and the line it logs.\<close>

definition request_id :: "event \<Rightarrow> json" where
  "request_id ev =
     dict_get (case map_of ev ''requestContext'' of Some (JDict rc) \<Rightarrow> rc | Some other \<Rightarrow> [] | None \<Rightarrow> [])
       ''requestId'' JNull"

definition invoked_line :: "event \<Rightarrow> log_line" where
  "invoked_line ev = (INFO, FString ''Authorizer invoked for request: '' (request_id ev))"

definition has_level :: "level \<Rightarrow> world \<Rightarrow> bool" where
  "has_level lvl w = (lvl \<in> fst ` set (log w))"

subsection \<open>How the handler behaves on each class of inputs\<close>

lemma os_environ_get_logger [simp]: "os_environ_get (logger lvl msg w) name = os_environ_get w name"
  by (simp add: os_environ_get_def logger_def)

lemma os_environ_get_log [simp]: "os_environ_get (w\<lparr>log := l\<rparr>) name = os_environ_get w name"
  by (simp add: os_environ_get_def)

lemma verdict_inject [simp]: "(verdict a = verdict b) = (a = b)"
  by (simp add: verdict_def)

text \<open>The two exceptions of the formatting step do occur.\<close>

lemma format_error_deep:
  "lambda_handler \<lparr>repr_room = 1, int_max_str_digits = 4300\<rparr>
     [(''requestContext'', JDict [(''requestId'', JList [JList [JList []]])])] c w =
   (Inl RecursionError, w)"
  by (simp add: lambda_handler_def dict_get_def format_error_def)

lemma format_error_long:
  "int_max_str_digits py = Suc n \<Longrightarrow>
   lambda_handler py [(''requestContext'', JDict [(''requestId'', JInt (10 ^ Suc n))])] c w =
   (Inl ValueError, w)"
  by (simp add: lambda_handler_def dict_get_def format_error_def int_too_long_def)

lemma line53:
  assumes "request_context_ok ev"
  shows "py_get (dict_get ev ''requestContext'' (JDict [])) ''requestId'' = Inr (request_id ev)"
    and "format_error py (request_id ev) = None"
proof -
  show "py_get (dict_get ev ''requestContext'' (JDict [])) ''requestId'' = Inr (request_id ev)"
    using assms
    by (simp add: request_context_ok_def request_id_def dict_get_def
        split: option.splits json.splits)
  have "request_id ev = JNull \<or> (\<exists>s. request_id ev = JStr s)"
    using assms
    by (auto simp: request_context_ok_def request_id_ok_def request_id_def dict_get_def
        split: option.splits json.splits)
  then show "format_error py (request_id ev) = None"
    by (auto simp: format_error_def)
qed

lemma provided_api_key:
  "headers_ok ev \<Longrightarrow>
   py_get (dict_get ev ''headers'' (JDict [])) ''x-api-key'' =
     Inr (case api_key_header ev of None \<Rightarrow> JNull | Some v \<Rightarrow> v)"
  by (simp add: dict_get_def headers_ok_def api_key_header_def split: option.splits json.splits)

lemma bad_headers:
  "\<not> headers_ok ev \<Longrightarrow>
   py_get (dict_get ev ''headers'' (JDict [])) ''x-api-key'' = Inl AttributeError"
  by (simp add: dict_get_def headers_ok_def split: option.splits json.splits)

lemma handler_not_set:
  "request_context_ok ev \<Longrightarrow> secret_missing w \<Longrightarrow>
   lambda_handler py ev c w =
     (Inr (verdict False),
      w\<lparr>log := log w @ [invoked_line ev, (ERROR, Text ''ADMIN_API_KEY environment variable not set'')]\<rparr>)"
  by (simp add: lambda_handler_def line53 secret_missing_def invoked_line_def logger_def Let_def
      split: option.splits)

lemma handler_bad_headers:
  "request_context_ok ev \<Longrightarrow> \<not> secret_missing w \<Longrightarrow> \<not> headers_ok ev \<Longrightarrow>
   lambda_handler py ev c w = (Inl AttributeError, w\<lparr>log := log w @ [invoked_line ev]\<rparr>)"
  by (simp add: lambda_handler_def line53 bad_headers secret_missing_def invoked_line_def
      logger_def Let_def split: option.splits)

lemma handler_checked:
  "request_context_ok ev \<Longrightarrow> os_environ_get w ''ADMIN_API_KEY'' = Some s \<Longrightarrow> s \<noteq> [] \<Longrightarrow>
   headers_ok ev \<Longrightarrow> p = (case api_key_header ev of None \<Rightarrow> JNull | Some v \<Rightarrow> v) \<Longrightarrow>
   lambda_handler py ev c w =
     (if \<not> truthy p then
        (Inr (verdict False),
         w\<lparr>log := log w @ [invoked_line ev, (WARNING, Text ''No x-api-key header provided'')]\<rparr>)
      else if py_eq_str p s then
        (Inr (verdict True),
         w\<lparr>log := log w @ [invoked_line ev, (INFO, Text ''API key validated successfully'')]\<rparr>)
      else
        (Inr (verdict False),
         w\<lparr>log := log w @ [invoked_line ev, (WARNING, Text ''Invalid API key provided'')]\<rparr>))"
  by (simp add: lambda_handler_def line53 provided_api_key invoked_line_def logger_def Let_def)

lemma authorized_spec_iff:
  "os_environ_get w ''ADMIN_API_KEY'' = Some s \<Longrightarrow> s \<noteq> [] \<Longrightarrow>
   p = (case api_key_header ev of None \<Rightarrow> JNull | Some v \<Rightarrow> v) \<Longrightarrow>
   authorized_spec ev w = (truthy p \<and> py_eq_str p s)"
  by (cases "api_key_header ev"; cases p) (auto simp: authorized_spec_def)

lemma authorized_spec_secret: "authorized_spec ev w \<Longrightarrow> \<not> secret_missing w"
  by (auto simp: authorized_spec_def secret_missing_def split: option.splits)

lemma handler_verdict:
  assumes rc: "request_context_ok ev" and hs: "secret_missing w \<or> headers_ok ev"
  shows "fst (lambda_handler py ev c w) = Inr (verdict (authorized_spec ev w))"
proof (cases "secret_missing w")
  case True
  with rc show ?thesis
    using authorized_spec_secret [of ev w] by (auto simp: handler_not_set)
next
  case False
  with hs have hs': "headers_ok ev" by simp
  from False obtain s where s: "os_environ_get w ''ADMIN_API_KEY'' = Some s" "s \<noteq> []"
    by (auto simp: secret_missing_def split: option.splits)
  show ?thesis
    using handler_checked [OF rc s hs' refl, of py c] authorized_spec_iff [OF s refl, of ev]
    by (simp split: if_splits)
qed

lemma handler_outcomes:
  "(\<exists>e. fst (lambda_handler py ev c w) = Inl e) \<or>
   fst (lambda_handler py ev c w) = Inr (verdict True) \<or>
   fst (lambda_handler py ev c w) = Inr (verdict False)"
  by (simp add: lambda_handler_def Let_def split: sum.splits option.splits)

lemma request_context_ok_cong:
  "map_of ev' ''requestContext'' = map_of ev ''requestContext'' \<Longrightarrow>
   request_context_ok ev' = request_context_ok ev"
  by (simp add: request_context_ok_def)

lemma headers_ok_cong:
  "map_of ev' ''headers'' = map_of ev ''headers'' \<Longrightarrow> headers_ok ev' = headers_ok ev"
  by (simp add: headers_ok_def)

lemma api_key_header_cong:
  "map_of ev' ''headers'' = map_of ev ''headers'' \<Longrightarrow> api_key_header ev' = api_key_header ev"
  by (simp add: api_key_header_def)

lemma invoked_line_cong:
  "map_of ev' ''requestContext'' = map_of ev ''requestContext'' \<Longrightarrow> invoked_line ev' = invoked_line ev"
  by (simp add: invoked_line_def request_id_def)

lemma authorized_spec_cong:
  "environ w2 = environ w1 \<Longrightarrow> api_key_header ev2 = api_key_header ev1 \<Longrightarrow>
   authorized_spec ev2 w2 = authorized_spec ev1 w1"
  by (simp add: authorized_spec_def os_environ_get_def split: option.splits)

lemma handler_appends:
  fixes w :: world
  shows "\<exists>r ls. \<forall>w'::world. environ w' = environ w \<longrightarrow>
     lambda_handler py ev c w' = (r, w'\<lparr>log := log w' @ ls\<rparr>)"
proof -
  have "lambda_handler py ev c w' =
      (fst (lambda_handler py ev c (w\<lparr>log := []\<rparr>)),
       w'\<lparr>log := log w' @ log (snd (lambda_handler py ev c (w\<lparr>log := []\<rparr>)))\<rparr>)"
    if "environ w' = environ w" for w' :: world
    using that
    by (simp add: lambda_handler_def Let_def logger_def os_environ_get_def
        split: sum.splits option.splits)
  then show ?thesis by blast
qed

lemma handler_after_invoked:
  "\<exists>r tl. \<forall>ev'. request_context_ok ev' \<and> map_of ev' ''headers'' = map_of ev ''headers'' \<longrightarrow>
     lambda_handler py ev' c w = (r, w\<lparr>log := log w @ invoked_line ev' # tl\<rparr>)"
proof (cases "secret_missing w")
  case True
  have "lambda_handler py ev' c w =
      (Inr (verdict False),
       w\<lparr>log := log w @ invoked_line ev' # [(ERROR, Text ''ADMIN_API_KEY environment variable not set'')]\<rparr>)"
    if "request_context_ok ev'" for ev'
    using that True by (simp add: handler_not_set)
  then show ?thesis by blast
next
  case unset: False
  then obtain s where s: "os_environ_get w ''ADMIN_API_KEY'' = Some s" "s \<noteq> []"
    by (auto simp: secret_missing_def split: option.splits)
  show ?thesis
  proof (cases "headers_ok ev")
    case False
    have "lambda_handler py ev' c w = (Inl AttributeError, w\<lparr>log := log w @ invoked_line ev' # []\<rparr>)"
      if "request_context_ok ev'" and "map_of ev' ''headers'' = map_of ev ''headers''" for ev'
    proof -
      from False have "\<not> headers_ok ev'"
        using headers_ok_cong [OF that(2)] by simp
      with that(1) unset show ?thesis by (simp add: handler_bad_headers)
    qed
    then show ?thesis by blast
  next
    case hs: True
    define p where "p = (case api_key_header ev of None \<Rightarrow> JNull | Some v \<Rightarrow> v)"
    define r :: "error + json" where
      "r = (if \<not> truthy p then Inr (verdict False)
            else if py_eq_str p s then Inr (verdict True) else Inr (verdict False))"
    define tl where
      "tl = [if \<not> truthy p then (WARNING, Text ''No x-api-key header provided'')
             else if py_eq_str p s then (INFO, Text ''API key validated successfully'')
             else (WARNING, Text ''Invalid API key provided'')]"
    have "lambda_handler py ev' c w = (r, w\<lparr>log := log w @ invoked_line ev' # tl\<rparr>)"
      if "request_context_ok ev'" and "map_of ev' ''headers'' = map_of ev ''headers''" for ev'
    proof -
      from hs have hs': "headers_ok ev'"
        using headers_ok_cong [OF that(2)] by simp
      have p': "p = (case api_key_header ev' of None \<Rightarrow> JNull | Some v \<Rightarrow> v)"
        using api_key_header_cong [OF that(2)] by (simp add: p_def)
      from handler_checked [OF that(1) s hs' p', of py c] show ?thesis
        by (simp add: r_def tl_def)
    qed
    then show ?thesis by blast
  qed
qed

subsection \<open>The verdict\<close>

text \<open>
  Claim C1: for every event of the documented format and every environment, the handler
  returns the positive verdict if and only if the secret is present and non-empty, the
  headers contain a present, non-empty \<^verbatim>\<open>x-api-key\<close> and the two strings are exactly
  equal; in every other case it returns the negative verdict. The headers half of the
  format is needed only when the secret is set.
\<close>

theorem lambda_handler_verdict:
  assumes "request_context_ok ev" and "secret_missing w \<or> headers_ok ev"
  shows "(fst (lambda_handler py ev c w) = Inr (verdict True) \<longleftrightarrow> authorized_spec ev w) \<and>
    (\<not> authorized_spec ev w \<longrightarrow> fst (lambda_handler py ev c w) = Inr (verdict False))"
  using handler_verdict [OF assms, of py c] by simp

theorem lambda_handler_verdict_witness:
  "request_context_ok
     [(''headers'', JDict [(''x-api-key'', JStr ''secret123'')]),
      (''requestContext'', JDict [(''requestId'', JStr ''abc123'')])] \<and>
   headers_ok
     [(''headers'', JDict [(''x-api-key'', JStr ''secret123'')]),
      (''requestContext'', JDict [(''requestId'', JStr ''abc123'')])] \<and>
   authorized_spec
     [(''headers'', JDict [(''x-api-key'', JStr ''secret123'')]),
      (''requestContext'', JDict [(''requestId'', JStr ''abc123'')])]
     \<lparr>environ = [(''ADMIN_API_KEY'', ''secret123'')], log = []\<rparr> \<and>
   fst (lambda_handler \<lparr>repr_room = 100, int_max_str_digits = 4300\<rparr>
     [(''headers'', JDict [(''x-api-key'', JStr ''secret123'')]),
      (''requestContext'', JDict [(''requestId'', JStr ''abc123'')])]
     ()
     \<lparr>environ = [(''ADMIN_API_KEY'', ''secret123'')], log = []\<rparr>) = Inr (verdict True)"
proof -
  let ?ev = "[(''headers'', JDict [(''x-api-key'', JStr ''secret123'')]),
              (''requestContext'', JDict [(''requestId'', JStr ''abc123'')])]"
  let ?w = "\<lparr>environ = [(''ADMIN_API_KEY'', ''secret123'')], log = []\<rparr>"
  have a: "request_context_ok ?ev"
    by (simp add: request_context_ok_def request_id_ok_def)
  have b: "headers_ok ?ev" by (simp add: headers_ok_def)
  then have b': "secret_missing ?w \<or> headers_ok ?ev" by simp
  have c: "authorized_spec ?ev ?w"
    by (simp add: authorized_spec_def api_key_header_def os_environ_get_def)
  show ?thesis
    using a b c
      lambda_handler_verdict [OF a b', of "\<lparr>repr_room = 100, int_max_str_digits = 4300\<rparr>" "()"]
    by simp
qed

subsection \<open>Returning\<close>

text \<open>
  Claim C2: for every event of the documented format the handler never raises: it ends
  normally and returns a well-formed verdict, a mapping with the boolean field
  \<^verbatim>\<open>isAuthorized\<close>.
\<close>

theorem lambda_handler_returns:
  assumes "request_context_ok ev" and "secret_missing w \<or> headers_ok ev"
  shows "(\<exists>b. fst (lambda_handler py ev c w) = Inr (JDict [(''isAuthorized'', JBool b)])) \<and>
    (\<forall>e. fst (lambda_handler py ev c w) \<noteq> Inl e)"
  using handler_verdict [OF assms, of py c] by (simp add: verdict_def)

theorem lambda_handler_returns_witness:
  "request_context_ok [(''headers'', JDict [(''x-api-key'', JStr ''wrong'')])] \<and>
   headers_ok [(''headers'', JDict [(''x-api-key'', JStr ''wrong'')])] \<and>
   (\<exists>b. fst (lambda_handler \<lparr>repr_room = 100, int_max_str_digits = 4300\<rparr>
           [(''headers'', JDict [(''x-api-key'', JStr ''wrong'')])] ()
           \<lparr>environ = [(''ADMIN_API_KEY'', ''secret123'')], log = []\<rparr>) =
         Inr (JDict [(''isAuthorized'', JBool b)]))"
proof -
  let ?ev = "[(''headers'', JDict [(''x-api-key'', JStr ''wrong'')])]"
  let ?w = "\<lparr>environ = [(''ADMIN_API_KEY'', ''secret123'')], log = []\<rparr>"
  have a: "request_context_ok ?ev" by (simp add: request_context_ok_def)
  have b: "headers_ok ?ev" by (simp add: headers_ok_def)
  then have b': "secret_missing ?w \<or> headers_ok ?ev" by simp
  show ?thesis
    using a b
      lambda_handler_returns [OF a b', of "\<lparr>repr_room = 100, int_max_str_digits = 4300\<rparr>" "()"]
    by blast
qed

subsection \<open>Missing configuration\<close>

text \<open>
  Claim C3: whenever the secret is unset or the empty string, for every event of the
  documented format and regardless of its headers (the \<^verbatim>\<open>headers\<close> entry is left
  entirely free), the handler returns the negative verdict and emits an error-level log
  line, after the invocation line.
\<close>

theorem lambda_handler_not_set:
  assumes "secret_missing w" and "request_context_ok ev"
  shows "lambda_handler py ev c w =
     (Inr (verdict False),
      w\<lparr>log := log w @ [invoked_line ev, (ERROR, Text ''ADMIN_API_KEY environment variable not set'')]\<rparr>) \<and>
    has_level ERROR (snd (lambda_handler py ev c w))"
  using assms by (simp add: handler_not_set has_level_def)

theorem lambda_handler_not_set_witness:
  "secret_missing \<lparr>environ = [(''ADMIN_API_KEY'', [])], log = []\<rparr> \<and>
   request_context_ok [(''headers'', JDict [(''x-api-key'', JStr ''anything'')])] \<and>
   fst (lambda_handler \<lparr>repr_room = 100, int_max_str_digits = 4300\<rparr>
          [(''headers'', JDict [(''x-api-key'', JStr ''anything'')])] ()
          \<lparr>environ = [(''ADMIN_API_KEY'', [])], log = []\<rparr>) = Inr (verdict False) \<and>
   has_level ERROR (snd (lambda_handler \<lparr>repr_room = 100, int_max_str_digits = 4300\<rparr>
          [(''headers'', JDict [(''x-api-key'', JStr ''anything'')])] ()
          \<lparr>environ = [(''ADMIN_API_KEY'', [])], log = []\<rparr>))"
proof -
  have a: "secret_missing \<lparr>environ = [(''ADMIN_API_KEY'', [])], log = []\<rparr>"
    by (simp add: secret_missing_def os_environ_get_def)
  have b: "request_context_ok [(''headers'', JDict [(''x-api-key'', JStr ''anything'')])]"
    by (simp add: request_context_ok_def)
  show ?thesis
    using a b
      lambda_handler_not_set [OF a b, of "\<lparr>repr_room = 100, int_max_str_digits = 4300\<rparr>" "()"]
    by (simp add: has_level_def invoked_line_def)
qed

subsection \<open>Missing credential\<close>

text \<open>
  Claim C4: for every non-empty configured secret and every event of the documented format
  whose headers lack an \<^verbatim>\<open>x-api-key\<close> entry or map it to the empty string, the handler
  returns the negative verdict and emits a warning-level log line, after the invocation
  line.
\<close>

theorem lambda_handler_no_header:
  assumes "os_environ_get w ''ADMIN_API_KEY'' = Some s" and "s \<noteq> []"
    and "request_context_ok ev" and "headers_ok ev"
    and "api_key_header ev = None \<or> api_key_header ev = Some (JStr [])"
  shows "lambda_handler py ev c w =
     (Inr (verdict False),
      w\<lparr>log := log w @ [invoked_line ev, (WARNING, Text ''No x-api-key header provided'')]\<rparr>) \<and>
    has_level WARNING (snd (lambda_handler py ev c w))"
proof -
  define p where "p = (case api_key_header ev of None \<Rightarrow> JNull | Some v \<Rightarrow> v)"
  from assms(5) have "\<not> truthy p" by (auto simp: p_def)
  with handler_checked [OF assms(3) assms(1) assms(2) assms(4) p_def, of py c]
  show ?thesis by (simp add: has_level_def)
qed

theorem lambda_handler_no_header_witness:
  "os_environ_get \<lparr>environ = [(''ADMIN_API_KEY'', ''secret123'')], log = []\<rparr> ''ADMIN_API_KEY''
     = Some ''secret123'' \<and>
   ''secret123'' \<noteq> [] \<and>
   request_context_ok [(''headers'', JDict [(''x-api-key'', JStr [])])] \<and>
   headers_ok [(''headers'', JDict [(''x-api-key'', JStr [])])] \<and>
   api_key_header [(''headers'', JDict [(''x-api-key'', JStr [])])] = Some (JStr []) \<and>
   fst (lambda_handler \<lparr>repr_room = 100, int_max_str_digits = 4300\<rparr>
          [(''headers'', JDict [(''x-api-key'', JStr [])])] ()
          \<lparr>environ = [(''ADMIN_API_KEY'', ''secret123'')], log = []\<rparr>) = Inr (verdict False) \<and>
   has_level WARNING
     (snd (lambda_handler \<lparr>repr_room = 100, int_max_str_digits = 4300\<rparr>
          [(''headers'', JDict [(''x-api-key'', JStr [])])] ()
          \<lparr>environ = [(''ADMIN_API_KEY'', ''secret123'')], log = []\<rparr>))"
proof -
  let ?ev = "[(''headers'', JDict [(''x-api-key'', JStr [])])]"
  have a: "os_environ_get \<lparr>environ = [(''ADMIN_API_KEY'', ''secret123'')], log = []\<rparr>
      ''ADMIN_API_KEY'' = Some ''secret123''"
    by (simp add: os_environ_get_def)
  have b: "''secret123'' \<noteq> []" by simp
  have c: "request_context_ok ?ev" by (simp add: request_context_ok_def)
  have d: "headers_ok ?ev" by (simp add: headers_ok_def)
  have e: "api_key_header ?ev = Some (JStr [])" by (simp add: api_key_header_def)
  from e have e': "api_key_header ?ev = None \<or> api_key_header ?ev = Some (JStr [])" by simp
  show ?thesis
    using a c d e
      lambda_handler_no_header
        [OF a b c d e', of "\<lparr>repr_room = 100, int_max_str_digits = 4300\<rparr>" "()"]
    by (simp add: has_level_def)
qed

subsection \<open>Shape of the returned value\<close>

text \<open>
  Claim C5: the value returned by the handler is exactly \<^verbatim>\<open>{"isAuthorized": true}\<close> or
  exactly \<^verbatim>\<open>{"isAuthorized": false}\<close>, a mapping with the single key \<^verbatim>\<open>isAuthorized\<close>, a
  boolean value and no other field. This holds of every value returned, for every event
  and environment whatsoever, and for every event of the documented format one of the two
  is returned.
\<close>

theorem lambda_handler_shape:
  "(\<forall>v. fst (lambda_handler py ev c w) = Inr v \<longrightarrow>
        v = JDict [(''isAuthorized'', JBool True)] \<or> v = JDict [(''isAuthorized'', JBool False)]) \<and>
   (request_context_ok ev \<and> (secret_missing w \<or> headers_ok ev) \<longrightarrow>
      fst (lambda_handler py ev c w) = Inr (JDict [(''isAuthorized'', JBool True)]) \<or>
      fst (lambda_handler py ev c w) = Inr (JDict [(''isAuthorized'', JBool False)]))"
proof -
  have A: "v = JDict [(''isAuthorized'', JBool True)] \<or> v = JDict [(''isAuthorized'', JBool False)]"
    if "fst (lambda_handler py ev c w) = Inr v" for v
    using that handler_outcomes [of py ev c w] by (auto simp: verdict_def)
  have B: "fst (lambda_handler py ev c w) = Inr (JDict [(''isAuthorized'', JBool True)]) \<or>
      fst (lambda_handler py ev c w) = Inr (JDict [(''isAuthorized'', JBool False)])"
    if "request_context_ok ev \<and> (secret_missing w \<or> headers_ok ev)"
  proof -
    from that have "fst (lambda_handler py ev c w) = Inr (verdict (authorized_spec ev w))"
      by (simp add: handler_verdict)
    then show ?thesis by (cases "authorized_spec ev w") (simp_all add: verdict_def)
  qed
  from A B show ?thesis by blast
qed

theorem lambda_handler_shape_witness:
  "request_context_ok [(''headers'', JDict [(''x-api-key'', JStr ''wrong'')]), (''body'', JStr ''x'')] \<and>
   headers_ok [(''headers'', JDict [(''x-api-key'', JStr ''wrong'')]), (''body'', JStr ''x'')] \<and>
   fst (lambda_handler \<lparr>repr_room = 100, int_max_str_digits = 4300\<rparr>
          [(''headers'', JDict [(''x-api-key'', JStr ''wrong'')]), (''body'', JStr ''x'')] ()
          \<lparr>environ = [(''ADMIN_API_KEY'', ''secret123'')], log = []\<rparr>)
     = Inr (JDict [(''isAuthorized'', JBool False)])"
  using lambda_handler_shape
    [of "\<lparr>repr_room = 100, int_max_str_digits = 4300\<rparr>"
        "[(''headers'', JDict [(''x-api-key'', JStr ''wrong'')]), (''body'', JStr ''x'')]" "()"
        "\<lparr>environ = [(''ADMIN_API_KEY'', ''secret123'')], log = []\<rparr>"]
  by (simp add: request_context_ok_def headers_ok_def lambda_handler_def dict_get_def
      os_environ_get_def logger_def verdict_def format_error_def)

subsection \<open>Order of the checks\<close>

text \<open>
  Claim C6: the configuration check precedes the credential check. Whenever the secret is
  unset or empty, for every event of the documented format the handler takes the
  missing-configuration branch (the invocation line, one error-level line, the negative
  verdict) without inspecting the headers, even when secret and header are both empty: any
  other event with the same \<^verbatim>\<open>requestContext\<close> entry, whatever its \<^verbatim>\<open>headers\<close> entry
  (even one that is not a mapping, on which an inspection would raise), has exactly the
  same outcome, and no line of the credential check or of the comparison is logged.
\<close>

theorem lambda_handler_order:
  assumes "secret_missing w" and "request_context_ok ev"
    and "map_of ev' ''requestContext'' = map_of ev ''requestContext''"
  shows "lambda_handler py ev' c w = lambda_handler py ev c w \<and>
    lambda_handler py ev c w =
     (Inr (verdict False),
      w\<lparr>log := log w @ [invoked_line ev, (ERROR, Text ''ADMIN_API_KEY environment variable not set'')]\<rparr>)"
proof -
  from assms(2) have "request_context_ok ev'"
    using request_context_ok_cong [OF assms(3)] by simp
  then have "lambda_handler py ev' c w =
     (Inr (verdict False),
      w\<lparr>log := log w @ [invoked_line ev', (ERROR, Text ''ADMIN_API_KEY environment variable not set'')]\<rparr>)"
    using assms(1) by (simp add: handler_not_set)
  moreover have "invoked_line ev' = invoked_line ev"
    using assms(3) by (rule invoked_line_cong)
  moreover have "lambda_handler py ev c w =
     (Inr (verdict False),
      w\<lparr>log := log w @ [invoked_line ev, (ERROR, Text ''ADMIN_API_KEY environment variable not set'')]\<rparr>)"
    using assms(1,2) by (simp add: handler_not_set)
  ultimately show ?thesis by simp
qed

theorem lambda_handler_order_witness:
  "secret_missing \<lparr>environ = [(''ADMIN_API_KEY'', [])], log = []\<rparr> \<and>
   request_context_ok [(''headers'', JDict [(''x-api-key'', JStr [])])] \<and>
   map_of [(''headers'', JNull)] ''requestContext'' =
     map_of [(''headers'', JDict [(''x-api-key'', JStr [])])] ''requestContext'' \<and>
   lambda_handler \<lparr>repr_room = 100, int_max_str_digits = 4300\<rparr> [(''headers'', JNull)] ()
       \<lparr>environ = [(''ADMIN_API_KEY'', [])], log = []\<rparr> =
     lambda_handler \<lparr>repr_room = 100, int_max_str_digits = 4300\<rparr>
       [(''headers'', JDict [(''x-api-key'', JStr [])])] ()
       \<lparr>environ = [(''ADMIN_API_KEY'', [])], log = []\<rparr> \<and>
   fst (lambda_handler \<lparr>repr_room = 100, int_max_str_digits = 4300\<rparr>
       [(''headers'', JDict [(''x-api-key'', JStr [])])] ()
       \<lparr>environ = [(''ADMIN_API_KEY'', [])], log = []\<rparr>) = Inr (verdict False)"
proof -
  have a: "secret_missing \<lparr>environ = [(''ADMIN_API_KEY'', [])], log = []\<rparr>"
    by (simp add: secret_missing_def os_environ_get_def)
  have b: "request_context_ok [(''headers'', JDict [(''x-api-key'', JStr [])])]"
    by (simp add: request_context_ok_def)
  have c: "map_of [(''headers'', JNull)] ''requestContext'' =
     map_of [(''headers'', JDict [(''x-api-key'', JStr [])])] ''requestContext''"
    by simp
  show ?thesis
    using a b c
      lambda_handler_order [OF a b c, of "\<lparr>repr_room = 100, int_max_str_digits = 4300\<rparr>" "()"]
    by simp
qed

subsection \<open>Determinism and purity\<close>

text \<open>
  Claim C7: the handler is a deterministic function of the event and the environment that
  changes no state but the log. Two invocations on the same event in states with the same
  environment (whatever was logged before) give the same outcome; each leaves the state as
  it was except for lines appended to the log, the same lines in both; and invoking the
  handler again in the state the first invocation left gives the same outcome.
\<close>

theorem lambda_handler_pure:
  assumes "environ w2 = environ w1"
  shows "fst (lambda_handler py ev c w2) = fst (lambda_handler py ev c w1) \<and>
    (\<exists>ls. snd (lambda_handler py ev c w1) = w1\<lparr>log := log w1 @ ls\<rparr> \<and>
          snd (lambda_handler py ev c w2) = w2\<lparr>log := log w2 @ ls\<rparr>) \<and>
    environ (snd (lambda_handler py ev c w1)) = environ w1 \<and>
    fst (lambda_handler py ev c (snd (lambda_handler py ev c w1))) = fst (lambda_handler py ev c w1)"
proof -
  from handler_appends [of w1 py ev c] obtain r ls where
    h: "\<And>w'::world. environ w' = environ w1 \<Longrightarrow>
          lambda_handler py ev c w' = (r, w'\<lparr>log := log w' @ ls\<rparr>)"
    by blast
  have 1: "lambda_handler py ev c w1 = (r, w1\<lparr>log := log w1 @ ls\<rparr>)" by (simp add: h)
  have 2: "lambda_handler py ev c w2 = (r, w2\<lparr>log := log w2 @ ls\<rparr>)" using assms by (simp add: h)
  have 3: "fst (lambda_handler py ev c (w1\<lparr>log := log w1 @ ls\<rparr>)) = r" by (simp add: h)
  from 1 2 3 show ?thesis by auto
qed

theorem lambda_handler_pure_witness:
  "environ \<lparr>environ = [(''ADMIN_API_KEY'', ''secret123'')], log = [(INFO, Text ''earlier'')]\<rparr> =
   environ \<lparr>environ = [(''ADMIN_API_KEY'', ''secret123'')], log = []\<rparr> \<and>
   fst (lambda_handler \<lparr>repr_room = 100, int_max_str_digits = 4300\<rparr>
     [(''headers'', JDict [(''x-api-key'', JStr ''secret123'')])] ()
     \<lparr>environ = [(''ADMIN_API_KEY'', ''secret123'')], log = [(INFO, Text ''earlier'')]\<rparr>) =
   fst (lambda_handler \<lparr>repr_room = 100, int_max_str_digits = 4300\<rparr>
     [(''headers'', JDict [(''x-api-key'', JStr ''secret123'')])] ()
     \<lparr>environ = [(''ADMIN_API_KEY'', ''secret123'')], log = []\<rparr>)"
proof -
  have a: "environ \<lparr>environ = [(''ADMIN_API_KEY'', ''secret123'')], log = [(INFO, Text ''earlier'')]\<rparr> =
   environ \<lparr>environ = [(''ADMIN_API_KEY'', ''secret123'')], log = []\<rparr>"
    by simp
  show ?thesis
    using a lambda_handler_pure
      [OF a, of "\<lparr>repr_room = 100, int_max_str_digits = 4300\<rparr>"
         "[(''headers'', JDict [(''x-api-key'', JStr ''secret123'')])]" "()"]
    by blast
qed

subsection \<open>What the verdict depends on\<close>

text \<open>
  Claim C8: for any two events of the documented format that agree on
  \<^verbatim>\<open>headers["x-api-key"]\<close> (both may lack it), whatever else differs between them (other
  headers, the body, any other field, the request identifier), the handler returns the same
  verdict in the same environment. The headers half of the format is needed only when the
  secret is set.
\<close>

theorem lambda_handler_ignores:
  assumes "request_context_ok ev1" and "request_context_ok ev2"
    and "secret_missing w \<or> (headers_ok ev1 \<and> headers_ok ev2)"
    and "api_key_header ev1 = api_key_header ev2"
  shows "fst (lambda_handler py ev1 c w) = fst (lambda_handler py ev2 c w) \<and>
    (\<exists>b. fst (lambda_handler py ev1 c w) = Inr (verdict b))"
proof -
  have "fst (lambda_handler py ev1 c w) = Inr (verdict (authorized_spec ev1 w))"
    using assms(1,3) by (intro handler_verdict) auto
  moreover have "fst (lambda_handler py ev2 c w) = Inr (verdict (authorized_spec ev2 w))"
    using assms(2,3) by (intro handler_verdict) auto
  moreover have "authorized_spec ev1 w = authorized_spec ev2 w"
    using assms(4) by (intro authorized_spec_cong refl)
  ultimately show ?thesis by auto
qed

theorem lambda_handler_ignores_witness:
  "request_context_ok [(''headers'', JDict [(''x-api-key'', JStr ''secret123'')])] \<and>
   request_context_ok
     [(''body'', JStr ''{}''), (''requestContext'', JDict [(''requestId'', JStr ''r1'')]),
      (''headers'', JDict [(''accept'', JStr ''*/*''), (''x-api-key'', JStr ''secret123'')])] \<and>
   headers_ok [(''headers'', JDict [(''x-api-key'', JStr ''secret123'')])] \<and>
   headers_ok
     [(''body'', JStr ''{}''), (''requestContext'', JDict [(''requestId'', JStr ''r1'')]),
      (''headers'', JDict [(''accept'', JStr ''*/*''), (''x-api-key'', JStr ''secret123'')])] \<and>
   api_key_header [(''headers'', JDict [(''x-api-key'', JStr ''secret123'')])] =
   api_key_header
     [(''body'', JStr ''{}''), (''requestContext'', JDict [(''requestId'', JStr ''r1'')]),
      (''headers'', JDict [(''accept'', JStr ''*/*''), (''x-api-key'', JStr ''secret123'')])] \<and>
   fst (lambda_handler \<lparr>repr_room = 100, int_max_str_digits = 4300\<rparr>
          [(''headers'', JDict [(''x-api-key'', JStr ''secret123'')])] ()
          \<lparr>environ = [(''ADMIN_API_KEY'', ''secret123'')], log = []\<rparr>) =
   fst (lambda_handler \<lparr>repr_room = 100, int_max_str_digits = 4300\<rparr>
          [(''body'', JStr ''{}''), (''requestContext'', JDict [(''requestId'', JStr ''r1'')]),
           (''headers'', JDict [(''accept'', JStr ''*/*''), (''x-api-key'', JStr ''secret123'')])] ()
          \<lparr>environ = [(''ADMIN_API_KEY'', ''secret123'')], log = []\<rparr>)"
proof -
  let ?e1 = "[(''headers'', JDict [(''x-api-key'', JStr ''secret123'')])]"
  let ?e2 = "[(''body'', JStr ''{}''), (''requestContext'', JDict [(''requestId'', JStr ''r1'')]),
              (''headers'', JDict [(''accept'', JStr ''*/*''), (''x-api-key'', JStr ''secret123'')])]"
  let ?w = "\<lparr>environ = [(''ADMIN_API_KEY'', ''secret123'')], log = []\<rparr>"
  have a: "request_context_ok ?e1" by (simp add: request_context_ok_def)
  have b: "request_context_ok ?e2" by (simp add: request_context_ok_def request_id_ok_def)
  have c: "headers_ok ?e1" by (simp add: headers_ok_def)
  have d: "headers_ok ?e2" by (simp add: headers_ok_def)
  from c d have cd: "secret_missing ?w \<or> (headers_ok ?e1 \<and> headers_ok ?e2)" by simp
  have e: "api_key_header ?e1 = api_key_header ?e2" by (simp add: api_key_header_def)
  show ?thesis
    using a b c d e
      lambda_handler_ignores
        [OF a b cd e, of "\<lparr>repr_room = 100, int_max_str_digits = 4300\<rparr>" "()"]
    by blast
qed

text \<open>
  Claim C9: the outcome does not depend on the second parameter. For every event and
  state and any two context values, of any types, the handler gives the same result and
  the same final state; the context is never read.
\<close>

theorem lambda_handler_context:
  "lambda_handler py ev (c1 :: 'a) w = lambda_handler py ev (c2 :: 'b) w"
  by (simp add: lambda_handler_def)

subsection \<open>Missing top-level keys\<close>

text \<open>
  Claim C10: an event that lacks the top-level \<^verbatim>\<open>headers\<close> key is handled as if its
  header mapping were empty (the outcome is that of the event with an empty mapping added),
  without error: when it is otherwise of the documented format and the secret is non-empty,
  the negative verdict is returned. Likewise a missing top-level \<^verbatim>\<open>requestContext\<close> key
  affects only the logged request identifier, never the verdict: the result is the one for
  the same event with a \<^verbatim>\<open>requestContext\<close> of the documented format added, and the two
  logs differ in the invocation line only.
\<close>

theorem lambda_handler_missing_keys:
  "(map_of ev ''headers'' = None \<longrightarrow>
      lambda_handler py ev c w = lambda_handler py ((''headers'', JDict []) # ev) c w) \<and>
   (map_of ev ''headers'' = None \<and> request_context_ok ev \<and> \<not> secret_missing w \<longrightarrow>
      fst (lambda_handler py ev c w) = Inr (verdict False)) \<and>
   (map_of ev ''requestContext'' = None \<and> request_id_ok rc \<longrightarrow>
      fst (lambda_handler py ev c w) = fst (lambda_handler py ((''requestContext'', JDict rc) # ev) c w) \<and>
      (\<exists>tl. log (snd (lambda_handler py ev c w)) = log w @ invoked_line ev # tl \<and>
            log (snd (lambda_handler py ((''requestContext'', JDict rc) # ev) c w)) =
              log w @ invoked_line ((''requestContext'', JDict rc) # ev) # tl))"
proof -
  have A: "lambda_handler py ev c w = lambda_handler py ((''headers'', JDict []) # ev) c w"
    if n: "map_of ev ''headers'' = None"
  proof -
    have 1: "dict_get ((''headers'', JDict []) # ev) ''requestContext'' (JDict []) =
        dict_get ev ''requestContext'' (JDict [])"
      by (simp add: dict_get_def)
    have 2: "dict_get ((''headers'', JDict []) # ev) ''headers'' (JDict []) =
        dict_get ev ''headers'' (JDict [])"
      using n by (simp add: dict_get_def)
    show ?thesis unfolding lambda_handler_def 1 2 by (rule refl)
  qed
  have B: "fst (lambda_handler py ev c w) = Inr (verdict False)"
    if a: "map_of ev ''headers'' = None \<and> request_context_ok ev \<and> \<not> secret_missing w"
  proof -
    from a have hs: "headers_ok ev" and "api_key_header ev = None"
      by (simp_all add: headers_ok_def api_key_header_def)
    then have "\<not> authorized_spec ev w"
      by (simp add: authorized_spec_def split: option.splits)
    moreover have "fst (lambda_handler py ev c w) = Inr (verdict (authorized_spec ev w))"
      using a hs by (simp add: handler_verdict)
    ultimately show ?thesis by simp
  qed
  have C: "fst (lambda_handler py ev c w) =
        fst (lambda_handler py ((''requestContext'', JDict rc) # ev) c w) \<and>
      (\<exists>tl. log (snd (lambda_handler py ev c w)) = log w @ invoked_line ev # tl \<and>
            log (snd (lambda_handler py ((''requestContext'', JDict rc) # ev) c w)) =
              log w @ invoked_line ((''requestContext'', JDict rc) # ev) # tl)"
    if n: "map_of ev ''requestContext'' = None \<and> request_id_ok rc"
  proof -
    let ?ev' = "(''requestContext'', JDict rc) # ev"
    from handler_after_invoked [of ev py c w] obtain r tl where
      h: "\<And>ev'. request_context_ok ev' \<Longrightarrow> map_of ev' ''headers'' = map_of ev ''headers'' \<Longrightarrow>
            lambda_handler py ev' c w = (r, w\<lparr>log := log w @ invoked_line ev' # tl\<rparr>)"
      by blast
    have 1: "lambda_handler py ev c w = (r, w\<lparr>log := log w @ invoked_line ev # tl\<rparr>)"
      using n by (intro h) (simp_all add: request_context_ok_def)
    have 2: "lambda_handler py ?ev' c w = (r, w\<lparr>log := log w @ invoked_line ?ev' # tl\<rparr>)"
      using n by (intro h) (simp_all add: request_context_ok_def)
    from 1 2 show ?thesis by simp
  qed
  from A B C show ?thesis by blast
qed

theorem lambda_handler_missing_keys_witness:
  "map_of [(''body'', JStr ''x'')] ''headers'' = None \<and>
   request_context_ok [(''body'', JStr ''x'')] \<and>
   \<not> secret_missing \<lparr>environ = [(''ADMIN_API_KEY'', ''secret123'')], log = []\<rparr> \<and>
   map_of [(''body'', JStr ''x'')] ''requestContext'' = None \<and>
   request_id_ok [(''requestId'', JStr ''abc123'')] \<and>
   lambda_handler \<lparr>repr_room = 100, int_max_str_digits = 4300\<rparr> [(''body'', JStr ''x'')] ()
       \<lparr>environ = [(''ADMIN_API_KEY'', ''secret123'')], log = []\<rparr> =
     lambda_handler \<lparr>repr_room = 100, int_max_str_digits = 4300\<rparr>
       [(''headers'', JDict []), (''body'', JStr ''x'')] ()
       \<lparr>environ = [(''ADMIN_API_KEY'', ''secret123'')], log = []\<rparr> \<and>
   fst (lambda_handler \<lparr>repr_room = 100, int_max_str_digits = 4300\<rparr> [(''body'', JStr ''x'')] ()
       \<lparr>environ = [(''ADMIN_API_KEY'', ''secret123'')], log = []\<rparr>) = Inr (verdict False) \<and>
   fst (lambda_handler \<lparr>repr_room = 100, int_max_str_digits = 4300\<rparr> [(''body'', JStr ''x'')] ()
       \<lparr>environ = [(''ADMIN_API_KEY'', ''secret123'')], log = []\<rparr>) =
     fst (lambda_handler \<lparr>repr_room = 100, int_max_str_digits = 4300\<rparr>
            [(''requestContext'', JDict [(''requestId'', JStr ''abc123'')]), (''body'', JStr ''x'')] ()
       \<lparr>environ = [(''ADMIN_API_KEY'', ''secret123'')], log = []\<rparr>)"
  using lambda_handler_missing_keys
    [of "[(''body'', JStr ''x'')]" "\<lparr>repr_room = 100, int_max_str_digits = 4300\<rparr>" "()"
        "\<lparr>environ = [(''ADMIN_API_KEY'', ''secret123'')], log = []\<rparr>"
        "[(''requestId'', JStr ''abc123'')]"]
  by (auto simp: request_context_ok_def request_id_ok_def secret_missing_def os_environ_get_def)

end
